theory Spec2Isabelle
  imports Main
begin

section \<open>The Tuya BLE lock entity (lock.py)\<close>

text \<open>
  A shallow embedding of \<^verbatim>\<open>custom_components/tuya_local_ble/lock.py\<close>: the class
  \<^verbatim>\<open>TuyaBLELock\<close> with its constructor, its four state properties, the command
  path \<^verbatim>\<open>_set_lock_state\<close> and the report path \<^verbatim>\<open>update_device_state\<close> /
  \<^verbatim>\<open>_handle_coordinator_update\<close>.

  The object's fields are a record and every method takes the record and returns the
  updated one. Calls that leave the object (publishing the entity state, scheduling a
  datapoint write, starting the timer thread, asking the store for a datapoint) are
  appended to a trace, in program order. \<^verbatim>\<open>datetime.now()\<close> is a parameter
  of the methods that read the clock.
\<close>

subsection \<open>Time\<close>

text \<open>
  A \<^verbatim>\<open>datetime\<close> is its number of microseconds, the resolution of Python's type;
  \<^verbatim>\<open>timedelta(seconds=n)\<close> is \<open>n * 1000000\<close>. Comparison and addition are those of
  the integers (the upper end of Python's calendar, year 9999, is not represented).
\<close>

type_synonym datetime = int

definition timedelta_seconds :: "int \<Rightarrow> int" where
  "timedelta_seconds n = n * 1000000"

subsection \<open>The datapoint store\<close>

text \<open>
  Modelled from the spec: the module \<^verbatim>\<open>tuya_ble\<close> (\<^verbatim>\<open>TuyaBLEDataPointType\<close>, the
  datapoint objects and the container \<^verbatim>\<open>device.datapoints\<close>) is not among the sources.
  The spec describes it as a mapping from integer datapoint id to a typed value with
  \<^verbatim>\<open>get(id) -> value | absent\<close> and an idempotent
  \<^verbatim>\<open>getOrCreate(id, type, defaultValue)\<close> that creates the datapoint with the default if
  it is absent. Of the type enumeration, lock.py names \<^verbatim>\<open>DT_BOOL\<close> only.
\<close>

datatype TuyaBLEDataPointType = DT_RAW | DT_BOOL | DT_VALUE | DT_STRING | DT_ENUM | DT_BITMAP

text \<open>The Python values a datapoint may hold, and Python's truth test on them.\<close>

datatype dp_value = VBool bool | VInt int | VStr string | VBytes "nat list"

fun truthy :: "dp_value \<Rightarrow> bool" where
  "truthy (VBool b) = b"
| "truthy (VInt i) = (i \<noteq> 0)"
| "truthy (VStr s) = (s \<noteq> [])"
| "truthy (VBytes bs) = (bs \<noteq> [])"

record TuyaBLEDataPoint =
  point_type :: TuyaBLEDataPointType
  point_value :: dp_value

type_synonym datapoints = "int \<rightharpoonup> TuyaBLEDataPoint"

subsection \<open>The lock mapping\<close>

text \<open>
  The dataclass \<^verbatim>\<open>TuyaBLELockMapping\<close>, with the fields the entity reads. (The entity
  description, \<^verbatim>\<open>dp_type\<close> and \<^verbatim>\<open>is_available\<close> only reach the host framework.)
\<close>

record TuyaBLELockMapping =
  dp_id :: int
  dp_id_lock :: int
  dp_id_unlock :: int
  dp_id_nop :: int
  keep_connect_timer :: int
  force_add :: bool
  keep_connect :: bool

text \<open>The one entry of the table \<^verbatim>\<open>mapping\<close>: category "jtmspro", product "rlyxv7pe".\<close>

definition gimdow :: TuyaBLELockMapping where
  "gimdow = \<lparr> dp_id = 47, dp_id_lock = 46, dp_id_unlock = 6, dp_id_nop = 52,
              keep_connect_timer = 60, force_add = True, keep_connect = True \<rparr>"

subsection \<open>Effects\<close>

datatype event =
    WriteHAState "bool option" "bool option" "bool option" "bool option"
      \<comment> \<open>\<^verbatim>\<open>async_write_ha_state()\<close>: the published is_locked, is_locking, is_unlocking, is_jammed\<close>
  | GetOrCreate int TuyaBLEDataPointType dp_value
      \<comment> \<open>\<^verbatim>\<open>device.datapoints.get_or_create(id, type, default)\<close>\<close>
  | CreateTaskSetValue int dp_value
      \<comment> \<open>\<^verbatim>\<open>hass.create_task(datapoint.set_value(v))\<close> on the datapoint with this id\<close>
  | TimerStart int
      \<comment> \<open>\<^verbatim>\<open>Timer(interval, self.send_nop_request).start()\<close>\<close>

subsection \<open>The entity\<close>

text \<open>
  \<open>current_state\<close> and \<open>target_state\<close> are \<^verbatim>\<open>Optional[bool]\<close>: \<open>Some True\<close> is locked,
  \<open>Some False\<close> is unlocked, \<open>None\<close> is unknown. \<open>datapoint_nop\<close> holds the id of the
  datapoint object the field refers to. The \<open>attr\<close> fields are the host framework's
  \<^verbatim>\<open>_attr_is_*\<close> attributes, \<^verbatim>\<open>None\<close> until first assigned.
\<close>

record TuyaBLELock =
  mapping :: TuyaBLELockMapping
  current_state :: "bool option"
  target_state :: "bool option"
  commanded :: bool
  commanded_timer :: "datetime option"
  datapoint_nop :: "int option"
  isjammed :: bool
  attr_is_locking :: "bool option"
  attr_is_unlocking :: "bool option"
  attr_is_locked :: "bool option"
  attr_is_jammed :: "bool option"
  device_datapoints :: datapoints
  trace :: "event list"

definition is_locked :: "TuyaBLELock \<Rightarrow> bool option" where
  "is_locked s = current_state s"

definition is_locking :: "TuyaBLELock \<Rightarrow> bool" where
  "is_locking s =
     (current_state s = Some False \<and> target_state s = Some True \<and> commanded s)"

definition is_unlocking :: "TuyaBLELock \<Rightarrow> bool" where
  "is_unlocking s =
     (current_state s = Some True \<and> target_state s = Some False \<and> commanded s)"

definition is_jammed :: "TuyaBLELock \<Rightarrow> bool" where
  "is_jammed s = isjammed s"

text \<open>
  \<^verbatim>\<open>_update_attrs\<close>. Its last line, \<^verbatim>\<open>self._attr_changed_by = super().changed_by\<close>,
  reads the attribute it assigns and is left out.
\<close>

definition update_attrs :: "TuyaBLELock \<Rightarrow> TuyaBLELock" where
  "update_attrs s =
     s\<lparr> attr_is_locking := Some (is_locking s),
        attr_is_unlocking := Some (is_unlocking s),
        attr_is_locked := is_locked s,
        attr_is_jammed := Some (is_jammed s) \<rparr>"

definition async_write_ha_state :: "TuyaBLELock \<Rightarrow> TuyaBLELock" where
  "async_write_ha_state s =
     s\<lparr> trace := trace s @
          [WriteHAState (attr_is_locked s) (attr_is_locking s)
             (attr_is_unlocking s) (attr_is_jammed s)] \<rparr>"

definition get_or_create ::
  "TuyaBLELock \<Rightarrow> int \<Rightarrow> TuyaBLEDataPointType \<Rightarrow> dp_value \<Rightarrow> TuyaBLELock" where
  "get_or_create s i ty dflt =
     (let s1 = s\<lparr> trace := trace s @ [GetOrCreate i ty dflt] \<rparr>
      in case device_datapoints s1 i of
           Some dp \<Rightarrow> s1
         | None \<Rightarrow>
             s1\<lparr> device_datapoints :=
                   (device_datapoints s1)(i \<mapsto> \<lparr> point_type = ty, point_value = dflt \<rparr>) \<rparr>)"

text \<open>\<^verbatim>\<open>__init__\<close>, for a mapping and the store of the device.\<close>

definition init :: "TuyaBLELockMapping \<Rightarrow> datapoints \<Rightarrow> TuyaBLELock" where
  "init m store =
     (let s0 = \<lparr> mapping = m, current_state = None, target_state = None,
                 commanded = False, commanded_timer = None, datapoint_nop = None,
                 isjammed = False,
                 attr_is_locking = None, attr_is_unlocking = None,
                 attr_is_locked = None, attr_is_jammed = None,
                 device_datapoints = store, trace = [] \<rparr>;
          s1 = update_attrs s0
      in if keep_connect m then
           (let s2 = s1\<lparr> trace := trace s1 @ [TimerStart (keep_connect_timer (mapping s1))] \<rparr>;
                s3 = get_or_create s2 (dp_id_nop (mapping s2)) DT_BOOL (VBool False)
            in s3\<lparr> datapoint_nop := Some (dp_id_nop (mapping s2)) \<rparr>)
         else s1)"

text \<open>\<^verbatim>\<open>_set_lock_state(want_locked)\<close>, with the clock read at its last line.\<close>

definition set_lock_state :: "TuyaBLELock \<Rightarrow> bool \<Rightarrow> datetime \<Rightarrow> TuyaBLELock" where
  "set_lock_state s want_locked now =
     (let s1 = s\<lparr> target_state := Some want_locked \<rparr>;
          s2 = update_attrs s1;
          s3 = async_write_ha_state s2;
          i = (if want_locked then dp_id_lock (mapping s3) else dp_id_unlock (mapping s3));
          s4 = get_or_create s3 i DT_BOOL (VBool False);
          s5 = s4\<lparr> trace := trace s4 @ [CreateTaskSetValue i (VBool True)] \<rparr>;
          s6 = s5\<lparr> commanded := True \<rparr>
      in s6\<lparr> commanded_timer := Some now \<rparr>)"

definition async_lock :: "TuyaBLELock \<Rightarrow> datetime \<Rightarrow> TuyaBLELock" where
  "async_lock s now = set_lock_state s True now"

definition async_unlock :: "TuyaBLELock \<Rightarrow> datetime \<Rightarrow> TuyaBLELock" where
  "async_unlock s now = set_lock_state s False now"

text \<open>
  \<^verbatim>\<open>update_device_state\<close>. The clock is read only in the innermost test; a
  \<^verbatim>\<open>datetime\<close> object is always true, so \<^verbatim>\<open>if self._commanded_timer and ...\<close> tests
  for \<^verbatim>\<open>None\<close>.
\<close>

definition update_device_state :: "TuyaBLELock \<Rightarrow> datetime \<Rightarrow> TuyaBLELock" where
  "update_device_state s now =
     (case device_datapoints s (dp_id (mapping s)) of
        None \<Rightarrow> s
      | Some datapoint \<Rightarrow>
          (let s1 = s\<lparr> current_state :=
                         Some (if truthy (point_value datapoint) then False else True) \<rparr>
           in if commanded s1 then
                (if target_state s1 \<noteq> None \<and> current_state s1 \<noteq> target_state s1 then
                   (case commanded_timer s1 of
                      None \<Rightarrow> s1
                    | Some issued \<Rightarrow>
                        if now > issued + timedelta_seconds 12
                        then s1\<lparr> isjammed := True, commanded := False \<rparr>
                        else s1)
                 else s1\<lparr> commanded := False, isjammed := False \<rparr>)
              else s1))"

definition handle_coordinator_update :: "TuyaBLELock \<Rightarrow> datetime \<Rightarrow> TuyaBLELock" where
  "handle_coordinator_update s now =
     async_write_ha_state (update_attrs (update_device_state s now))"

text \<open>
  Modelled from the spec: the store's change notification, \<^verbatim>\<open>onStatusReport(rawValue)\<close>.
  The store (not among the sources) records the reported boolean under the status
  datapoint id and then invokes the entity's report handler.
\<close>

definition store_status :: "TuyaBLELock \<Rightarrow> bool \<Rightarrow> TuyaBLELock" where
  "store_status s raw =
     s\<lparr> device_datapoints :=
          (device_datapoints s)(dp_id (mapping s) \<mapsto>
             \<lparr> point_type = DT_BOOL, point_value = VBool raw \<rparr>) \<rparr>"

definition on_status_report :: "TuyaBLELock \<Rightarrow> bool \<Rightarrow> datetime \<Rightarrow> TuyaBLELock" where
  "on_status_report s raw now = handle_coordinator_update (store_status s raw) now"

subsection \<open>Runs of the entity\<close>

text \<open>
  The calls the entity can receive after construction: a lock or unlock command, a
  status report, a coordinator update that carries no new status, and a change of
  any datapoint made by the store itself.
\<close>

datatype call =
    RequestLock bool datetime
  | StatusReport bool datetime
  | CoordinatorUpdate datetime
  | StoreChange int "TuyaBLEDataPoint option"

fun step :: "TuyaBLELock \<Rightarrow> call \<Rightarrow> TuyaBLELock" where
  "step s (RequestLock want_locked now) = set_lock_state s want_locked now"
| "step s (StatusReport raw now) = on_status_report s raw now"
| "step s (CoordinatorUpdate now) = handle_coordinator_update s now"
| "step s (StoreChange i v) = s\<lparr> device_datapoints := (device_datapoints s)(i := v) \<rparr>"

fun run :: "TuyaBLELock \<Rightarrow> call list \<Rightarrow> TuyaBLELock" where
  "run s [] = s"
| "run s (c # cs) = run (step s c) cs"

subsection \<open>Example entities\<close>

text \<open>
  Entities for the Gimdow mapping, built by running the constructor and a few calls.
  Times are in microseconds.
\<close>

definition unlocked_entity :: TuyaBLELock where
  "unlocked_entity = run (init gimdow Map.empty) [StatusReport True 0]"

definition locking_entity :: TuyaBLELock where
  "locking_entity = run unlocked_entity [RequestLock True 0]"

definition jammed_entity :: TuyaBLELock where
  "jammed_entity = run locking_entity [StatusReport True 13000000]"

definition recommanded_entity :: TuyaBLELock where
  "recommanded_entity = run jammed_entity [RequestLock True 20000000]"

section \<open>Properties\<close>

lemmas entity_defs =
  init_def Let_def update_attrs_def get_or_create_def is_locked_def is_locking_def
  is_unlocking_def is_jammed_def async_write_ha_state_def set_lock_state_def
  update_device_state_def handle_coordinator_update_def store_status_def
  on_status_report_def timedelta_seconds_def gimdow_def

subsection \<open>The report handler and the runtime fields\<close>

text \<open>
  Recomputing the attributes and publishing them touches none of the five runtime
  fields, so on these \<open>handle_coordinator_update\<close> and \<open>update_device_state\<close> agree.
\<close>

lemma handle_runtime_fields:
  "current_state (handle_coordinator_update s now) = current_state (update_device_state s now)"
  "target_state (handle_coordinator_update s now) = target_state (update_device_state s now)"
  "commanded (handle_coordinator_update s now) = commanded (update_device_state s now)"
  "commanded_timer (handle_coordinator_update s now) = commanded_timer (update_device_state s now)"
  "isjammed (handle_coordinator_update s now) = isjammed (update_device_state s now)"
  by (simp_all add: handle_coordinator_update_def async_write_ha_state_def update_attrs_def)

lemma update_device_state_absent:
  "device_datapoints s (dp_id (mapping s)) = None \<Longrightarrow> update_device_state s now = s"
  by (simp add: update_device_state_def)

lemma update_device_state_current:
  "device_datapoints s (dp_id (mapping s)) = Some dp \<Longrightarrow>
   current_state (update_device_state s now) = Some (\<not> truthy (point_value dp))"
  by (simp add: update_device_state_def Let_def split: option.split)

lemma update_device_state_target:
  "target_state (update_device_state s now) = target_state s"
  by (simp add: update_device_state_def Let_def split: option.split)

lemma update_device_state_timer:
  "commanded_timer (update_device_state s now) = commanded_timer s"
  by (simp add: update_device_state_def Let_def split: option.split)

lemma store_status_fields:
  "device_datapoints (store_status s raw) (dp_id (mapping (store_status s raw))) =
     Some \<lparr> point_type = DT_BOOL, point_value = VBool raw \<rparr>"
  "current_state (store_status s raw) = current_state s"
  "target_state (store_status s raw) = target_state s"
  "commanded (store_status s raw) = commanded s"
  "commanded_timer (store_status s raw) = commanded_timer s"
  "isjammed (store_status s raw) = isjammed s"
  by (simp_all add: store_status_def)

lemma unlocked_entity_fields:
  "current_state unlocked_entity = Some False"
  "target_state unlocked_entity = None"
  "commanded unlocked_entity = False"
  "commanded_timer unlocked_entity = None"
  "isjammed unlocked_entity = False"
  "mapping unlocked_entity = gimdow"
  "device_datapoints unlocked_entity 47 = Some \<lparr> point_type = DT_BOOL, point_value = VBool True \<rparr>"
  by (simp_all add: unlocked_entity_def entity_defs)

lemma locking_entity_fields:
  "current_state locking_entity = Some False"
  "target_state locking_entity = Some True"
  "commanded locking_entity = True"
  "commanded_timer locking_entity = Some 0"
  "isjammed locking_entity = False"
  "mapping locking_entity = gimdow"
  "device_datapoints locking_entity 47 = Some \<lparr> point_type = DT_BOOL, point_value = VBool True \<rparr>"
  by (simp_all add: locking_entity_def set_lock_state_def Let_def update_attrs_def
      async_write_ha_state_def get_or_create_def unlocked_entity_fields gimdow_def
      split: option.split)

lemma jammed_entity_fields:
  "current_state jammed_entity = Some False"
  "target_state jammed_entity = Some True"
  "commanded jammed_entity = False"
  "commanded_timer jammed_entity = Some 0"
  "isjammed jammed_entity = True"
  "mapping jammed_entity = gimdow"
  "device_datapoints jammed_entity 47 = Some \<lparr> point_type = DT_BOOL, point_value = VBool True \<rparr>"
  by (simp_all add: jammed_entity_def on_status_report_def handle_coordinator_update_def
      async_write_ha_state_def update_attrs_def update_device_state_def store_status_def
      Let_def timedelta_seconds_def locking_entity_fields gimdow_def)

lemma recommanded_entity_fields:
  "current_state recommanded_entity = Some False"
  "target_state recommanded_entity = Some True"
  "commanded recommanded_entity = True"
  "commanded_timer recommanded_entity = Some 20000000"
  "isjammed recommanded_entity = True"
  "mapping recommanded_entity = gimdow"
  "device_datapoints recommanded_entity 47 = Some \<lparr> point_type = DT_BOOL, point_value = VBool True \<rparr>"
  by (simp_all add: recommanded_entity_def set_lock_state_def Let_def update_attrs_def
      async_write_ha_state_def get_or_create_def jammed_entity_fields gimdow_def
      split: option.split)

subsection \<open>Construction\<close>

text \<open>
  C8. A freshly constructed entity has current state unknown, target state unset, no
  command pending and no jam; its properties report is_locked unknown and is_locking,
  is_unlocking and is_jammed false.
\<close>

theorem init_state:
  "current_state (init m store) = None \<and> target_state (init m store) = None \<and>
   commanded (init m store) = False \<and> isjammed (init m store) = False \<and>
   is_locked (init m store) = None \<and> is_locking (init m store) = False \<and>
   is_unlocking (init m store) = False \<and> is_jammed (init m store) = False"
  by (simp add: init_def Let_def update_attrs_def get_or_create_def is_locked_def
      is_locking_def is_unlocking_def is_jammed_def split: option.split)

subsection \<open>Reports\<close>

text \<open>
  C3. For every report with a stored status value, a raw value of true sets the current
  state to unlocked (\<open>Some False\<close>) and a raw value of false sets it to locked
  (\<open>Some True\<close>): in \<open>update_device_state\<close>, in the whole handler, and for a report
  delivered through the store.
\<close>

theorem report_polarity:
  assumes "device_datapoints s (dp_id (mapping s)) = Some dp"
    and "point_value dp = VBool raw"
  shows "current_state (update_device_state s now) = (if raw then Some False else Some True) \<and>
         current_state (handle_coordinator_update s now) = (if raw then Some False else Some True) \<and>
         current_state (on_status_report s' True now) = Some False \<and>
         current_state (on_status_report s' False now) = Some True"
  using assms
  by (simp add: handle_runtime_fields on_status_report_def update_device_state_current
      store_status_fields)

theorem report_polarity_witness:
  "device_datapoints unlocked_entity (dp_id (mapping unlocked_entity)) =
     Some \<lparr> point_type = DT_BOOL, point_value = VBool True \<rparr> \<and>
   current_state (update_device_state unlocked_entity 5) = Some False \<and>
   current_state (handle_coordinator_update unlocked_entity 5) = Some False \<and>
   current_state (on_status_report locking_entity True 5) = Some False \<and>
   current_state (on_status_report locking_entity False 5) = Some True"
  using report_polarity [of unlocked_entity "\<lparr> point_type = DT_BOOL, point_value = VBool True \<rparr>"
      True 5 locking_entity]
  by (simp add: unlocked_entity_fields gimdow_def)

text \<open>
  C4. With a command pending, a report whose mapped state equals the target state, or
  any report when the target state is unset, ends the command: \<open>commanded\<close> and
  \<open>isjammed\<close> are both false afterwards.
\<close>

theorem report_satisfies_command:
  assumes "commanded s"
    and "device_datapoints s (dp_id (mapping s)) = Some dp"
    and "target_state s = None \<or> current_state (update_device_state s now) = target_state s"
  shows "commanded (update_device_state s now) = False \<and>
         isjammed (update_device_state s now) = False \<and>
         commanded (handle_coordinator_update s now) = False \<and>
         isjammed (handle_coordinator_update s now) = False"
proof -
  have cur: "current_state (update_device_state s now) = Some (\<not> truthy (point_value dp))"
    using assms(2) by (rule update_device_state_current)
  from assms(3) cur
  have sat: "target_state s = None \<or> target_state s = Some (\<not> truthy (point_value dp))"
    by auto
  from assms(1,2) sat
  have "commanded (update_device_state s now) = False \<and>
        isjammed (update_device_state s now) = False"
    by (auto simp add: update_device_state_def Let_def)
  then show ?thesis
    by (simp add: handle_runtime_fields)
qed

theorem report_satisfies_command_witness:
  "commanded locking_entity \<and>
   current_state (update_device_state (store_status locking_entity False) 5) =
     target_state (store_status locking_entity False) \<and>
   commanded (update_device_state (store_status locking_entity False) 5) = False \<and>
   isjammed (update_device_state (store_status locking_entity False) 5) = False \<and>
   commanded (on_status_report locking_entity False 5) = False \<and>
   isjammed (on_status_report locking_entity False 5) = False"
proof -
  let ?s = "store_status locking_entity False"
  have c: "commanded ?s"
    by (simp add: store_status_fields locking_entity_fields)
  have d: "device_datapoints ?s (dp_id (mapping ?s)) =
             Some \<lparr> point_type = DT_BOOL, point_value = VBool False \<rparr>"
    by (rule store_status_fields)
  have t: "current_state (update_device_state ?s 5) = target_state ?s"
    by (simp add: update_device_state_current [OF d] store_status_fields locking_entity_fields)
  from report_satisfies_command [OF c d disjI2 [OF t]] c t
  show ?thesis
    by (simp add: on_status_report_def store_status_fields locking_entity_fields)
qed

text \<open>
  C6. With no command pending, a report changes the current state and nothing else:
  \<open>update_device_state\<close> returns the entity with only \<open>current_state\<close> replaced, and
  after the whole handler \<open>isjammed\<close>, \<open>commanded\<close>, \<open>target_state\<close> and
  \<open>commanded_timer\<close> are what they were, whatever the time of the call.
\<close>

theorem unsolicited_report_frame:
  assumes "\<not> commanded s"
  shows "update_device_state s now =
           s\<lparr> current_state := current_state (update_device_state s now) \<rparr> \<and>
         isjammed (handle_coordinator_update s now) = isjammed s \<and>
         commanded (handle_coordinator_update s now) = False \<and>
         target_state (handle_coordinator_update s now) = target_state s \<and>
         commanded_timer (handle_coordinator_update s now) = commanded_timer s"
  using assms
  by (simp add: handle_runtime_fields update_device_state_def Let_def split: option.split)

theorem unsolicited_report_frame_witness:
  "\<not> commanded jammed_entity \<and>
   isjammed (handle_coordinator_update jammed_entity 99000000) = True \<and>
   commanded (handle_coordinator_update jammed_entity 99000000) = False \<and>
   target_state (handle_coordinator_update jammed_entity 99000000) = Some True \<and>
   commanded_timer (handle_coordinator_update jammed_entity 99000000) = Some 0"
  using unsolicited_report_frame [of jammed_entity 99000000]
  by (simp add: jammed_entity_fields)

text \<open>
  C10. When the store holds no datapoint under the status id, \<open>update_device_state\<close>
  returns the entity as it was, and the whole handler leaves \<open>current_state\<close>,
  \<open>target_state\<close>, \<open>commanded\<close>, \<open>commanded_timer\<close> and \<open>isjammed\<close> unchanged. The
  model has no error result on this path because the source has no raise on it.
\<close>

theorem absent_status_noop:
  assumes "device_datapoints s (dp_id (mapping s)) = None"
  shows "update_device_state s now = s \<and>
         current_state (handle_coordinator_update s now) = current_state s \<and>
         target_state (handle_coordinator_update s now) = target_state s \<and>
         commanded (handle_coordinator_update s now) = commanded s \<and>
         commanded_timer (handle_coordinator_update s now) = commanded_timer s \<and>
         isjammed (handle_coordinator_update s now) = isjammed s"
  using assms
  by (simp add: handle_runtime_fields update_device_state_absent)

theorem absent_status_noop_witness:
  "device_datapoints (init gimdow Map.empty) (dp_id (mapping (init gimdow Map.empty))) = None \<and>
   update_device_state (init gimdow Map.empty) 5 = init gimdow Map.empty \<and>
   current_state (handle_coordinator_update (init gimdow Map.empty) 5) = None \<and>
   commanded (handle_coordinator_update (init gimdow Map.empty) 5) = False \<and>
   isjammed (handle_coordinator_update (init gimdow Map.empty) 5) = False"
proof -
  have d: "device_datapoints (init gimdow Map.empty) (dp_id (mapping (init gimdow Map.empty))) = None"
    by (simp add: init_def Let_def update_attrs_def get_or_create_def gimdow_def)
  have f: "current_state (init gimdow Map.empty) = None"
    "commanded (init gimdow Map.empty) = False"
    "isjammed (init gimdow Map.empty) = False"
    by (simp_all add: init_def Let_def update_attrs_def get_or_create_def gimdow_def)
  from absent_status_noop [OF d, of 5] d f
  show ?thesis by simp
qed

subsection \<open>The jam\<close>

text \<open>
  C2, as the spec states it: with a command pending, a target set and a report that
  does not match it, a report no later than twelve seconds after the command leaves
  \<open>isjammed\<close> false. It fails on an entity that was already jammed when the command
  was issued: \<open>set_lock_state\<close> does not reset \<open>isjammed\<close>, and the early report
  leaves it as it is, true.
\<close>

theorem early_report_keeps_old_jam:
  "commanded recommanded_entity \<and>
   target_state recommanded_entity = Some True \<and>
   commanded_timer recommanded_entity = Some 20000000 \<and>
   \<not> (21000000 > 20000000 + timedelta_seconds 12) \<and>
   current_state (on_status_report recommanded_entity True 21000000) \<noteq>
     target_state recommanded_entity \<and>
   isjammed (on_status_report recommanded_entity True 21000000) = True \<and>
   commanded (on_status_report recommanded_entity True 21000000) = True"
  by (simp add: on_status_report_def handle_runtime_fields update_device_state_def Let_def
      store_status_def timedelta_seconds_def recommanded_entity_fields)

text \<open>
  C2, amended. With a command pending and issued at \<open>issued\<close>, a target set and a
  report whose mapped state differs from it: if the time of the call is strictly later
  than \<open>issued\<close> plus twelve seconds, \<open>isjammed\<close> becomes true and \<open>commanded\<close> false;
  otherwise \<open>isjammed\<close> keeps the value it had (false if it was false) and
  \<open>commanded\<close> stays true.
\<close>

theorem jam_exactly_after_timeout:
  assumes "commanded s"
    and "target_state s = Some want"
    and "commanded_timer s = Some issued"
    and "device_datapoints s (dp_id (mapping s)) = Some dp"
    and "current_state (update_device_state s now) \<noteq> target_state s"
  shows "(now > issued + timedelta_seconds 12 \<longrightarrow>
            isjammed (update_device_state s now) = True \<and>
            commanded (update_device_state s now) = False \<and>
            isjammed (handle_coordinator_update s now) = True \<and>
            commanded (handle_coordinator_update s now) = False) \<and>
         (\<not> now > issued + timedelta_seconds 12 \<longrightarrow>
            isjammed (update_device_state s now) = isjammed s \<and>
            commanded (update_device_state s now) = True \<and>
            isjammed (handle_coordinator_update s now) = isjammed s \<and>
            commanded (handle_coordinator_update s now) = True)"
proof -
  have cur: "current_state (update_device_state s now) = Some (\<not> truthy (point_value dp))"
    using assms(4) by (rule update_device_state_current)
  from assms(2,5) cur have ne: "(\<not> truthy (point_value dp)) \<noteq> want"
    by simp
  from assms(1-4) ne show ?thesis
    by (simp add: handle_runtime_fields update_device_state_def Let_def)
qed

theorem jam_exactly_after_timeout_witness:
  "commanded locking_entity \<and> target_state locking_entity = Some True \<and>
   commanded_timer locking_entity = Some 0 \<and>
   current_state (update_device_state locking_entity 12000001) \<noteq> target_state locking_entity \<and>
   current_state (update_device_state locking_entity 12000000) \<noteq> target_state locking_entity \<and>
   isjammed (handle_coordinator_update locking_entity 12000001) = True \<and>
   commanded (handle_coordinator_update locking_entity 12000001) = False \<and>
   isjammed (handle_coordinator_update locking_entity 12000000) = False \<and>
   commanded (handle_coordinator_update locking_entity 12000000) = True"
proof -
  let ?dp = "\<lparr> point_type = DT_BOOL, point_value = VBool True \<rparr>"
  have d: "device_datapoints locking_entity (dp_id (mapping locking_entity)) = Some ?dp"
    by (simp add: locking_entity_fields gimdow_def)
  have c: "commanded locking_entity"
    and t: "target_state locking_entity = Some True"
    and i: "commanded_timer locking_entity = Some 0"
    by (simp_all add: locking_entity_fields)
  have n: "current_state (update_device_state locking_entity now) \<noteq> target_state locking_entity"
    for now
    by (simp add: update_device_state_current [OF d] locking_entity_fields)
  from jam_exactly_after_timeout [OF c t i d n [of 12000001]]
    jam_exactly_after_timeout [OF c t i d n [of 12000000]] c t i n
  show ?thesis
    by (simp add: timedelta_seconds_def locking_entity_fields)
qed

text \<open>
  C1, as the spec states it: once a jam has been declared (\<open>isjammed\<close> true, no command
  pending), a later report that maps to the target state clears the jam. It does not:
  the branch that clears \<open>isjammed\<close> is entered only while a command is pending.
\<close>

theorem matching_report_keeps_jam:
  "isjammed jammed_entity \<and> \<not> commanded jammed_entity \<and>
   current_state (on_status_report jammed_entity False 20000000) = target_state jammed_entity \<and>
   isjammed (on_status_report jammed_entity False 20000000) = True"
  by (simp add: on_status_report_def handle_runtime_fields update_device_state_def Let_def
      store_status_def jammed_entity_fields)

text \<open>
  C1, amended. In a state with \<open>isjammed\<close> true and no command pending, every report,
  also one that maps to the target state, leaves \<open>isjammed\<close> true. The jam is cleared
  by a report that maps to the target state while a command is pending: after a new
  \<open>set_lock_state\<close>, the report of the wanted state clears it.
\<close>

theorem jam_cleared_only_while_commanded:
  assumes "isjammed s" and "\<not> commanded s"
  shows "isjammed (update_device_state s now) = True \<and>
         isjammed (on_status_report s raw now) = True \<and>
         isjammed (on_status_report (set_lock_state s want_locked issued) (\<not> want_locked) now') = False"
proof -
  have a: "isjammed (update_device_state s now) = True"
    using assms by (simp add: update_device_state_def Let_def split: option.split)
  have b: "isjammed (on_status_report s raw now) = True"
    using assms
    by (simp add: on_status_report_def handle_runtime_fields update_device_state_def Let_def
        store_status_def)
  have c: "isjammed (on_status_report (set_lock_state s want_locked issued) (\<not> want_locked) now') = False"
    by (simp add: on_status_report_def handle_runtime_fields update_device_state_def Let_def
        store_status_def set_lock_state_def update_attrs_def async_write_ha_state_def
        get_or_create_def split: option.split)
  from a b c show ?thesis by simp
qed

theorem jam_cleared_only_while_commanded_witness:
  "isjammed jammed_entity \<and> \<not> commanded jammed_entity \<and>
   isjammed (update_device_state jammed_entity 20000000) = True \<and>
   isjammed (on_status_report jammed_entity False 20000000) = True \<and>
   isjammed (on_status_report (set_lock_state jammed_entity True 20000000) False 21000000) = False"
proof -
  have j: "isjammed jammed_entity" and c: "\<not> commanded jammed_entity"
    by (simp_all add: jammed_entity_fields)
  from jam_cleared_only_while_commanded [OF j c, of 20000000 False True 20000000 21000000] j c
  show ?thesis by simp
qed

subsection \<open>The command timestamp\<close>

lemma step_keeps_timer:
  assumes "commanded s \<longrightarrow> commanded_timer s \<noteq> None"
  shows "commanded (step s c) \<longrightarrow> commanded_timer (step s c) \<noteq> None"
proof (cases c)
  case (RequestLock want_locked now)
  then show ?thesis
    by (simp add: set_lock_state_def Let_def)
next
  case (StatusReport raw now)
  with assms show ?thesis
    by (auto simp add: on_status_report_def handle_runtime_fields update_device_state_def
        Let_def store_status_def split: option.split)
next
  case (CoordinatorUpdate now)
  with assms show ?thesis
    by (auto simp add: handle_runtime_fields update_device_state_def Let_def
        split: option.split)
next
  case (StoreChange i v)
  with assms show ?thesis by simp
qed

lemma run_keeps_timer:
  "commanded s \<longrightarrow> commanded_timer s \<noteq> None \<Longrightarrow>
   commanded (run s cs) \<longrightarrow> commanded_timer (run s cs) \<noteq> None"
proof (induction cs arbitrary: s)
  case Nil
  then show ?case by simp
next
  case (Cons c cs)
  from Cons.prems have "commanded (step s c) \<longrightarrow> commanded_timer (step s c) \<noteq> None"
    by (rule step_keeps_timer)
  then have "commanded (run (step s c) cs) \<longrightarrow> commanded_timer (run (step s c) cs) \<noteq> None"
    by (rule Cons.IH)
  then show ?case by simp
qed

text \<open>
  C7. In every state reached from a freshly constructed entity by any sequence of
  commands, status reports, coordinator updates and store changes, a pending command
  has its timestamp set.
\<close>

theorem commanded_has_timer:
  "commanded (run (init m store) cs) \<longrightarrow> commanded_timer (run (init m store) cs) \<noteq> None"
proof (rule run_keeps_timer)
  show "commanded (init m store) \<longrightarrow> commanded_timer (init m store) \<noteq> None"
    by (simp add: init_def Let_def update_attrs_def get_or_create_def split: option.split)
qed

theorem commanded_has_timer_witness:
  "commanded (run (init gimdow Map.empty) [StatusReport True 0, RequestLock True 0]) \<and>
   commanded_timer (run (init gimdow Map.empty) [StatusReport True 0, RequestLock True 0]) \<noteq> None"
proof -
  have "commanded (run (init gimdow Map.empty) [StatusReport True 0, RequestLock True 0])"
    by (simp add: set_lock_state_def Let_def)
  with commanded_has_timer [of gimdow Map.empty "[StatusReport True 0, RequestLock True 0]"]
  show ?thesis by simp
qed

subsection \<open>Publishing on a command\<close>

text \<open>
  What \<open>set_lock_state\<close> does outside the entity, in order: it publishes, asks the store
  for the command datapoint and schedules the write of \<open>True\<close>. The published
  \<open>is_locking\<close> and \<open>is_unlocking\<close> are computed with the value \<open>commanded\<close> had
  before the call.
\<close>

lemma set_lock_state_trace:
  "trace (set_lock_state s want_locked now) =
     trace s @
     [WriteHAState (current_state s)
        (Some (current_state s = Some False \<and> want_locked \<and> commanded s))
        (Some (current_state s = Some True \<and> \<not> want_locked \<and> commanded s))
        (Some (isjammed s)),
      GetOrCreate (if want_locked then dp_id_lock (mapping s) else dp_id_unlock (mapping s))
        DT_BOOL (VBool False),
      CreateTaskSetValue (if want_locked then dp_id_lock (mapping s) else dp_id_unlock (mapping s))
        (VBool True)]"
  by (simp add: set_lock_state_def Let_def update_attrs_def async_write_ha_state_def
      get_or_create_def is_locked_def is_locking_def is_unlocking_def is_jammed_def
      split: option.split)

text \<open>
  C5. A lock command on an unlocked entity with no command pending: the entity
  publishes before it schedules the write, but the published snapshot has
  \<open>is_locking\<close> false, although \<open>is_locking\<close> is true once the call has returned.
\<close>

theorem lock_command_publishes_not_locking:
  "current_state unlocked_entity = Some False \<and>
   trace (set_lock_state unlocked_entity True 1000000) =
     trace unlocked_entity @
     [WriteHAState (Some False) (Some False) (Some False) (Some False),
      GetOrCreate 46 DT_BOOL (VBool False),
      CreateTaskSetValue 46 (VBool True)] \<and>
   is_locking (set_lock_state unlocked_entity True 1000000) = True"
proof -
  have published:
    "trace (set_lock_state unlocked_entity True 1000000) =
       trace unlocked_entity @
       [WriteHAState (Some False) (Some False) (Some False) (Some False),
        GetOrCreate 46 DT_BOOL (VBool False),
        CreateTaskSetValue 46 (VBool True)]"
    by (simp add: set_lock_state_trace unlocked_entity_fields gimdow_def)
  have afterwards: "is_locking (set_lock_state unlocked_entity True 1000000) = True"
    by (simp add: is_locking_def set_lock_state_def Let_def update_attrs_def
        async_write_ha_state_def get_or_create_def unlocked_entity_fields
        split: option.split)
  from published afterwards show ?thesis
    by (simp add: unlocked_entity_fields)
qed

subsection \<open>The keepalive\<close>

text \<open>
  C9, as the spec states it: with \<open>keep_connect\<close> set, the constructor first makes sure
  the keepalive datapoint exists and only then starts the timer. On the Gimdow mapping
  and an empty store the timer is started first, while the store has no datapoint 52.
\<close>

theorem init_starts_timer_first:
  "keep_connect gimdow \<and> Map.empty (dp_id_nop gimdow) = (None :: TuyaBLEDataPoint option) \<and>
   trace (init gimdow Map.empty) = [TimerStart 60, GetOrCreate 52 DT_BOOL (VBool False)]"
  by (simp add: init_def Let_def update_attrs_def get_or_create_def gimdow_def)

text \<open>
  C9, amended. With \<open>keep_connect\<close> set, the constructor starts the timer with the
  interval \<open>keep_connect_timer\<close> and then asks the store for the keepalive datapoint,
  created as a boolean with value false if it was absent; afterwards the store holds
  the datapoint and \<open>datapoint_nop\<close> refers to it.
\<close>

theorem init_keepalive:
  assumes "keep_connect m"
  shows "trace (init m store) =
           [TimerStart (keep_connect_timer m), GetOrCreate (dp_id_nop m) DT_BOOL (VBool False)] \<and>
         device_datapoints (init m store) (dp_id_nop m) =
           Some (case store (dp_id_nop m) of
                   None \<Rightarrow> \<lparr> point_type = DT_BOOL, point_value = VBool False \<rparr>
                 | Some dp \<Rightarrow> dp) \<and>
         datapoint_nop (init m store) = Some (dp_id_nop m)"
  using assms
  by (simp add: init_def Let_def update_attrs_def get_or_create_def split: option.split)

theorem init_keepalive_witness:
  "keep_connect gimdow \<and>
   trace (init gimdow Map.empty) = [TimerStart 60, GetOrCreate 52 DT_BOOL (VBool False)] \<and>
   device_datapoints (init gimdow Map.empty) 52 =
     Some \<lparr> point_type = DT_BOOL, point_value = VBool False \<rparr> \<and>
   datapoint_nop (init gimdow Map.empty) = Some 52"
proof -
  have k: "keep_connect gimdow" by (simp add: gimdow_def)
  from init_keepalive [OF k, of Map.empty] k show ?thesis
    by (simp add: gimdow_def)
qed

end
